theory Spec2Isabelle
  imports Main "HOL-Library.Code_Target_Numeral"
begin

section \<open>JavaScript values used by the program\<close>

text \<open>
  The program is TypeScript running on Node. Strings are modelled by \<open>string\<close>,
  an optional field by \<open>option\<close> (\<open>None\<close> is \<open>undefined\<close>). A number is
  an IEEE 754 double. The model has the numbers with an integer value, the two
  infinities and NaN; numbers with a fraction are outside it. An integer in a field
  of a JSON message or in a parameter is the integer that is written there, and
  becomes the nearest double when it is read.
\<close>

subsection \<open>Numbers\<close>

text \<open>The decimal digits of a natural number and of an integer.\<close>

fun show_nat :: "nat \<Rightarrow> string" where
  "show_nat n = (if n < 10 then [''0123456789'' ! n]
                 else show_nat (n div 10) @ [''0123456789'' ! (n mod 10)])"

declare show_nat.simps [simp del]

definition decimal :: "int \<Rightarrow> string" where
  "decimal i = (if i < 0 then ''-'' @ show_nat (nat (- i)) else show_nat (nat i))"

fun bit_length :: "nat \<Rightarrow> nat" where
  "bit_length n = (if n = 0 then 0 else Suc (bit_length (n div 2)))"

declare bit_length.simps [simp del]

text \<open>
  The integer with 53 significant bits that is nearest to an integer, ties going to
  the even one: every integer below \<open>2^53\<close> in magnitude is a double, a larger one
  is rounded.
\<close>

definition round_double :: "int \<Rightarrow> int" where
  "round_double n =
     (if \<bar>n\<bar> < 2 ^ 53 then n
      else let a = nat \<bar>n\<bar>;
               e = bit_length a - 53;
               q = a div 2 ^ e;
               r = a mod 2 ^ e;
               half = 2 ^ (e - 1);
               q = (if half < r \<or> (r = half \<and> odd q) then q + 1 else q)
           in sgn n * int (q * 2 ^ e))"

datatype number = Finite int | PosInfinity | NegInfinity | NaN

text \<open>The number for an integer: rounded, and infinite from \<open>2^1024\<close> on.\<close>

definition js_number :: "int \<Rightarrow> number" where
  "js_number n =
     (let d = round_double n
      in if 2 ^ 1024 \<le> d then PosInfinity
         else if d \<le> - (2 ^ 1024) then NegInfinity
         else Finite d)"

text \<open>\<open>-x\<close>, \<open>x + y\<close>, \<open>x - y\<close> and \<open>x < y\<close>.\<close>

fun js_neg :: "number \<Rightarrow> number" where
  "js_neg (Finite a) = Finite (- a)"
| "js_neg PosInfinity = NegInfinity"
| "js_neg NegInfinity = PosInfinity"
| "js_neg NaN = NaN"

fun js_add :: "number \<Rightarrow> number \<Rightarrow> number" where
  "js_add (Finite a) (Finite b) = js_number (a + b)"
| "js_add NaN y = NaN"
| "js_add x NaN = NaN"
| "js_add PosInfinity NegInfinity = NaN"
| "js_add NegInfinity PosInfinity = NaN"
| "js_add PosInfinity y = PosInfinity"
| "js_add x PosInfinity = PosInfinity"
| "js_add NegInfinity y = NegInfinity"
| "js_add x NegInfinity = NegInfinity"

definition js_sub :: "number \<Rightarrow> number \<Rightarrow> number" where
  "js_sub x y = js_add x (js_neg y)"

fun js_less :: "number \<Rightarrow> number \<Rightarrow> bool" where
  "js_less (Finite a) (Finite b) = (a < b)"
| "js_less NaN y = False"
| "js_less x NaN = False"
| "js_less x NegInfinity = False"
| "js_less PosInfinity y = False"
| "js_less NegInfinity y = True"
| "js_less x PosInfinity = True"

text \<open>
  Number to string, as \<open>String(x)\<close> and a template literal do it. A double of
  magnitude \<open>2^53\<close> or more is printed with the fewest significant digits that
  still denote it: the candidates with \<open>e\<close> digits dropped are the two multiples
  of \<open>10^e\<close> around it, the nearer one first, the one with the even last digit
  first when they are equally near.
\<close>

definition candidates :: "nat \<Rightarrow> nat \<Rightarrow> nat list" where
  "candidates a e =
     (let lo = (a div 10 ^ e) * 10 ^ e;
          hi = lo + 10 ^ e;
          ordered = (if a - lo < hi - a then [lo, hi]
                     else if hi - a < a - lo then [hi, lo]
                     else if even (a div 10 ^ e) then [lo, hi] else [hi, lo])
      in filter (\<lambda>c. round_double (int c) = int a) ordered)"

text \<open>The first candidate, dropping as many digits as possible; the double itself if none.\<close>

definition shortest :: "nat \<Rightarrow> nat" where
  "shortest a =
     (case concat (map (candidates a) (rev [1 ..< length (show_nat a)])) of
        [] \<Rightarrow> a
      | c # cs \<Rightarrow> c)"

text \<open>Below \<open>10^21\<close> all digits are printed, from there on the exponent form.\<close>

definition big_text :: "nat \<Rightarrow> string" where
  "big_text c =
     (let ds = show_nat c
      in if c < 10 ^ 21 then ds
         else case rev (dropWhile (\<lambda>d. d = CHR ''0'') (rev ds)) of
                [] \<Rightarrow> ds
              | d # rest \<Rightarrow> d # (if rest = [] then [] else ''.'' @ rest) @ ''e+'' @
                            show_nat (length ds - 1))"

fun number_text :: "number \<Rightarrow> string" where
  "number_text NaN = ''NaN''"
| "number_text PosInfinity = ''Infinity''"
| "number_text NegInfinity = ''-Infinity''"
| "number_text (Finite n) =
     (if \<bar>n\<bar> < 2 ^ 53 then decimal n
      else (if n < 0 then ''-'' else []) @ big_text (shortest (nat \<bar>n\<bar>)))"

text \<open>An integer field of a message inside a template literal.\<close>

definition show_int :: "int \<Rightarrow> string" where
  "show_int i = number_text (js_number i)"

subsection \<open>Strings, arrays and objects\<close>

text \<open>Truthiness of an optional string: \<open>undefined\<close> and the empty string are falsy.\<close>

fun truthy :: "string option \<Rightarrow> bool" where
  "truthy None = False"
| "truthy (Some s) = (s \<noteq> [])"

text \<open>\<open>a || b\<close> on optional strings.\<close>

definition js_or :: "string option \<Rightarrow> string option \<Rightarrow> string option" where
  "js_or a b = (if truthy a then a else b)"

text \<open>An optional string inside a template literal.\<close>

fun interpolate :: "string option \<Rightarrow> string" where
  "interpolate None = ''undefined''"
| "interpolate (Some s) = s"

text \<open>\<open>Array.prototype.join\<close> on an array of strings.\<close>

fun js_join :: "string \<Rightarrow> string list \<Rightarrow> string" where
  "js_join sep [] = []"
| "js_join sep [x] = x"
| "js_join sep (x # y # ys) = x @ sep @ js_join sep (y # ys)"

text \<open>An array has fewer than \<open>2^32\<close> elements.\<close>

typedef 'a array = "{xs :: 'a list. length xs < 2 ^ 32}"
  morphisms elements Array
  by (rule exI [of _ "[]"]) simp

text \<open>
  \<open>Array.prototype.slice(start, end)\<close>: NaN counts as 0, a negative index counts
  from the end of the array, and both indices are clamped to the array.
\<close>

fun slice_index :: "int \<Rightarrow> number \<Rightarrow> int" where
  "slice_index len (Finite i) = (if i < 0 then max (len + i) 0 else min i len)"
| "slice_index len PosInfinity = len"
| "slice_index len NegInfinity = 0"
| "slice_index len NaN = 0"

definition js_slice :: "'a list \<Rightarrow> number \<Rightarrow> number \<Rightarrow> 'a list" where
  "js_slice xs start fin =
     (let len = int (length xs);
          k = slice_index len start;
          final = slice_index len fin
      in take (nat (final - k)) (drop (nat k) xs))"

text \<open>
  Property lookup \<open>obj[key]\<close> on an object created by a literal: an own property
  wins, otherwise the members that every such object inherits from
  \<open>Object.prototype\<close> are found, otherwise the result is \<open>undefined\<close>.
\<close>

definition object_prototype_keys :: "string list" where
  "object_prototype_keys =
     [''constructor'', ''__proto__'', ''hasOwnProperty'', ''isPrototypeOf'',
      ''propertyIsEnumerable'', ''toLocaleString'', ''toString'', ''valueOf'',
      ''__defineGetter__'', ''__defineSetter__'', ''__lookupGetter__'',
      ''__lookupSetter__'']"

datatype 'a property = Missing | Own 'a | Inherited string

definition js_get :: "(string \<rightharpoonup> 'a) \<Rightarrow> string \<Rightarrow> 'a property" where
  "js_get obj k =
     (case obj k of
        Some v \<Rightarrow> Own v
      | None \<Rightarrow> if k \<in> set object_prototype_keys then Inherited k else Missing)"

text \<open>
  An inherited member inside a template literal, as Node prints it: the prototype
  object itself for \<open>__proto__\<close>, the source text of a native function otherwise.
\<close>

definition inherited_text :: "string \<Rightarrow> string" where
  "inherited_text k =
     (if k = ''__proto__'' then ''[object Object]''
      else if k = ''constructor'' then ''function Object() { [native code] }''
      else ''function '' @ k @ ''() { [native code] }'')"

section \<open>Response types (index.ts)\<close>

record progress =
  extracted_pages :: int
  total_pages :: int
  start_time :: string

record task_response =
  task_id :: string

record task_status = task_response +
  data_id :: "string option"
  state :: string
  full_zip_url :: "string option"
  err_msg :: "string option"
  extract_progress :: "progress option"

text \<open>One element of \<open>BatchStatus.extract_result\<close>.\<close>

record batch_entry =
  file_name :: string
  entry_state :: string
  entry_full_zip_url :: "string option"
  entry_err_msg :: "string option"
  entry_data_id :: "string option"
  entry_extract_progress :: "progress option"

record batch_response =
  batch_id :: string

record batch_status = batch_response +
  extract_result :: "batch_entry array"

section \<open>Format helpers (index.ts)\<close>

definition formatConciseStatus :: "task_status \<Rightarrow> string" where
  "formatConciseStatus status =
     (let parts = [state status, task_id status];
          parts =
            (if state status = ''done'' \<and> truthy (full_zip_url status)
             then parts @ [interpolate (full_zip_url status)]
             else if state status = ''running'' \<and> extract_progress status \<noteq> None
             then (case extract_progress status of
                     Some p \<Rightarrow> parts @ [show_int (extracted_pages p) @ ''/'' @
                                          show_int (total_pages p) @ '' pages'']
                   | None \<Rightarrow> parts)
             else if state status = ''failed'' \<and> truthy (err_msg status)
             then parts @ [interpolate (err_msg status)]
             else parts)
      in js_join '' | '' parts)"

text \<open>The line of one batch entry: the body of the \<open>for\<close> loop.\<close>

definition batch_line :: "batch_entry \<Rightarrow> string" where
  "batch_line r =
     (let line = ''- '' @ file_name r @ '': '' @ entry_state r
      in if entry_state r = ''done'' \<and> truthy (entry_full_zip_url r)
         then line @ '' '' @ interpolate (entry_full_zip_url r)
         else if entry_state r = ''running'' \<and> entry_extract_progress r \<noteq> None
         then (case entry_extract_progress r of
                 Some p \<Rightarrow> line @ '' ('' @ show_int (extracted_pages p) @ ''/'' @
                                  show_int (total_pages p) @ '')''
               | None \<Rightarrow> line)
         else line)"

text \<open>
  The continuation of a page: when \<open>offset + limit < total\<close> the formatter
  advertises \<open>total - offset - limit\<close> remaining entries and the next offset
  \<open>offset + limit\<close>, both computed in doubles.
\<close>

definition continuation ::
  "batch_status \<Rightarrow> number \<Rightarrow> number \<Rightarrow> (number \<times> number) option" where
  "continuation batch limit offset =
     (let total = Finite (int (length (elements (extract_result batch))))
      in if js_less (js_add offset limit) total
         then Some (js_sub (js_sub total offset) limit, js_add offset limit)
         else None)"

definition hint_line :: "number \<times> number \<Rightarrow> string" where
  "hint_line h =
     ''[+'' @ number_text (fst h) @ '' more, use offset='' @ number_text (snd h) @ '']''"

definition header_line :: "batch_status \<Rightarrow> string" where
  "header_line batch =
     (let total = int (length (elements (extract_result batch)));
          done = int (length (filter (\<lambda>r. entry_state r = ''done'')
                                (elements (extract_result batch))))
      in ''Batch '' @ batch_id batch @ '': '' @ show_int done @ ''/'' @ show_int total @ '' done'')"

definition conciseBatchLines :: "batch_status \<Rightarrow> number \<Rightarrow> number \<Rightarrow> string list" where
  "conciseBatchLines batch limit offset =
     (let results = js_slice (elements (extract_result batch)) offset (js_add offset limit);
          lines = [header_line batch];
          lines = foldl (\<lambda>ls r. ls @ [batch_line r]) lines results
      in case continuation batch limit offset of
           Some h \<Rightarrow> lines @ [hint_line h]
         | None \<Rightarrow> lines)"

definition formatConciseBatch :: "batch_status \<Rightarrow> number \<Rightarrow> number \<Rightarrow> string" where
  "formatConciseBatch batch limit offset =
     js_join [CHR 0x0A] (conciseBatchLines batch limit offset)"

section \<open>Configuration and the remote call (index.ts)\<close>

record config =
  mineruApiKey :: string
  mineruBaseUrl :: string
  mineruDefaultModel :: string

definition apiKey :: "config \<Rightarrow> string" where
  "apiKey config = mineruApiKey config"

definition baseUrl :: "config \<Rightarrow> string" where
  "baseUrl config =
     (if mineruBaseUrl config \<noteq> [] then mineruBaseUrl config else ''https://mineru.net/api/v4'')"

definition defaultModel :: "config \<Rightarrow> string" where
  "defaultModel config =
     (if mineruDefaultModel config \<noteq> [] then mineruDefaultModel config else ''pipeline'')"

definition ERROR_MESSAGES :: "(string \<times> string) list" where
  "ERROR_MESSAGES =
     [(''A0202'', ''Token error. Check your API key.''),
      (''A0211'', ''Token expired. Get a new API key.''),
      (''-60002'', ''Invalid file format. Use: pdf, doc, docx, ppt, pptx, png, jpg, jpeg''),
      (''-60005'', ''File too large. Max 200MB.''),
      (''-60006'', ''Too many pages. Max 600 per file. Split the document.''),
      (''-60008'', ''URL timeout. Check the URL is accessible.''),
      (''-60009'', ''Queue full. Try again later.''),
      (''-60012'', ''Task not found. Check task_id is valid.''),
      (''-60013'', ''Access denied. You can only access your own tasks.'')]"

text \<open>\<open>ERROR_MESSAGES[code]\<close>, with a function or an object it inherits given by its text.\<close>

definition error_message :: "string \<Rightarrow> string option" where
  "error_message c =
     (case js_get (map_of ERROR_MESSAGES) c of
        Own m \<Rightarrow> Some m
      | Inherited k \<Rightarrow> Some (inherited_text k)
      | Missing \<Rightarrow> None)"

text \<open>The \<open>code\<close> field of a response envelope: a number, a string, or absent.\<close>

datatype js_code = CodeNumber int | CodeString string | CodeUndefined

fun code_text :: "js_code \<Rightarrow> string" where
  "code_text (CodeNumber n) = show_int n"
| "code_text (CodeString s) = s"
| "code_text CodeUndefined = ''undefined''"

fun code_truthy :: "js_code \<Rightarrow> bool" where
  "code_truthy (CodeNumber n) = (n \<noteq> 0)"
| "code_truthy (CodeString s) = (s \<noteq> [])"
| "code_truthy CodeUndefined = False"

datatype json = JString string | JBool bool | JArray "json list" | JObject "(string \<times> json) list"

datatype http_method = GET | POST

record http_request =
  req_method :: http_method
  req_url :: string
  req_headers :: "(string \<times> string) list"
  req_data :: "json option"

record 'd envelope =
  code :: js_code
  msg :: "string option"
  data :: 'd

text \<open>
  What the handler reads from an \<open>AxiosError\<close>: \<open>error.response?.data?.code\<close>,
  \<open>error.response?.data?.msg\<close>, \<open>error.response?.status\<close> and \<open>error.message\<close>.
\<close>

record axios_error =
  response_code :: js_code
  response_msg :: "string option"
  response_status :: "int option"
  message :: string

datatype js_error = Error string | TypeError string

text \<open>
  The outcome of the \<open>axios\<close> call: a response with a 2xx status and its envelope,
  an \<open>AxiosError\<close>, or some other exception.
\<close>

datatype 'd http_outcome = Fulfilled "'d envelope" | Axios_Error axios_error | Thrown js_error

text \<open>The request object that \<open>mineruRequest\<close> hands to \<open>axios\<close>.\<close>

definition axios_request :: "config \<Rightarrow> string \<Rightarrow> http_method \<Rightarrow> json option \<Rightarrow> http_request" where
  "axios_request config endpoint method body =
     \<lparr>req_method = method,
      req_url = baseUrl config @ endpoint,
      req_headers = [(''Content-Type'', ''application/json''),
                     (''Authorization'', ''Bearer '' @ apiKey config)],
      req_data = body\<rparr>"

text \<open>
  \<open>mineruRequest\<close>. The HTTP client is a parameter, and the requests handed to it are
  recorded in order: the last argument is the log before the call, the second
  component of the result the log after it.
\<close>

definition mineruRequest ::
  "config \<Rightarrow> (http_request \<Rightarrow> 'd http_outcome) \<Rightarrow> string \<Rightarrow> http_method \<Rightarrow> json option \<Rightarrow>
   http_request list \<Rightarrow> (js_error + 'd) \<times> http_request list" where
  "mineruRequest config axios endpoint method body sent =
     (if apiKey config = []
      then (Inl (Error ''MINERU_API_KEY not set. Add it to your environment.''), sent)
      else
        let request = axios_request config endpoint method body;
            sent = sent @ [request]
        in case axios request of
             Fulfilled result \<Rightarrow>
               if code result \<noteq> CodeNumber 0
               then let c = code_text (code result);
                        m = js_or (js_or (error_message c) (msg result)) (Some ''Unknown error'')
                    in (Inl (Error (''MinerU error '' @ c @ '': '' @ interpolate m)), sent)
               else (Inr (data result), sent)
           | Axios_Error error \<Rightarrow>
               if code_truthy (response_code error)
               then let m = js_or (error_message (code_text (response_code error)))
                                  (response_msg error)
                    in (Inl (Error (''MinerU error '' @ code_text (response_code error) @ '': '' @
                                    interpolate m)), sent)
               else (Inl (Error (''HTTP '' @
                                 (case response_status error of
                                    None \<Rightarrow> ''undefined''
                                  | Some n \<Rightarrow> show_int n) @
                                 '': '' @ message error)), sent)
           | Thrown error \<Rightarrow> (Inl error, sent))"

section \<open>Tool handlers (index.ts)\<close>

datatype model_name = Pipeline | Vlm

fun model_text :: "model_name \<Rightarrow> string" where
  "model_text Pipeline = ''pipeline''"
| "model_text Vlm = ''vlm''"

datatype export_format = Docx | Html | Latex

fun format_text :: "export_format \<Rightarrow> string" where
  "format_text Docx = ''docx''"
| "format_text Html = ''html''"
| "format_text Latex = ''latex''"

datatype output_format = Concise | Detailed

text \<open>The parameters that \<open>mineru_parse\<close> and \<open>mineru_batch\<close> share.\<close>

record tool_options =
  model :: "model_name option"
  ocr :: "bool option"
  formula :: "bool option"
  table :: "bool option"
  language :: "string option"
  formats :: "export_format list option"

record parse_params = tool_options +
  url :: string
  pages :: "string option"

record batch_params = tool_options +
  urls :: "string list"

definition model_version :: "config \<Rightarrow> 'a tool_options_scheme \<Rightarrow> string" where
  "model_version config params =
     (case model params of Some m \<Rightarrow> model_text m | None \<Rightarrow> defaultModel config)"

text \<open>The optional entries added to \<open>requestData\<close> by both submitting handlers.\<close>

definition option_entries :: "'a tool_options_scheme \<Rightarrow> (string \<times> json) list" where
  "option_entries params =
     (case ocr params of Some b \<Rightarrow> [(''is_ocr'', JBool b)] | None \<Rightarrow> []) @
     (case formula params of Some b \<Rightarrow> [(''enable_formula'', JBool b)] | None \<Rightarrow> []) @
     (case table params of Some b \<Rightarrow> [(''enable_table'', JBool b)] | None \<Rightarrow> []) @
     (if truthy (language params)
      then [(''language'', JString (interpolate (language params)))] else []) @
     (case formats params of
        Some fs \<Rightarrow> if fs \<noteq> [] then [(''extra_formats'', JArray (map (\<lambda>f. JString (format_text f)) fs))]
                   else []
      | None \<Rightarrow> [])"

definition mineru_parse ::
  "config \<Rightarrow> (http_request \<Rightarrow> task_response http_outcome) \<Rightarrow> parse_params \<Rightarrow>
   http_request list \<Rightarrow> (js_error + string) \<times> http_request list" where
  "mineru_parse config axios params sent =
     (let requestData =
            [(''url'', JString (url params)),
             (''model_version'', JString (model_version config params))] @
            (if truthy (pages params)
             then [(''page_ranges'', JString (interpolate (pages params)))] else []) @
            option_entries params
      in case mineruRequest config axios ''/extract/task'' POST (Some (JObject requestData)) sent of
           (Inl e, sent) \<Rightarrow> (Inl e, sent)
         | (Inr result, sent) \<Rightarrow>
             (Inr (''Task created: '' @ task_id result @ [CHR 0x0A] @
                   ''Use mineru_status to check progress.''), sent))"

text \<open>\<open>JSON.stringify(_, null, 2)\<close> of the detailed formats is a parameter.\<close>

definition mineru_status ::
  "config \<Rightarrow> (http_request \<Rightarrow> task_status http_outcome) \<Rightarrow> (task_status \<Rightarrow> string) \<Rightarrow>
   string \<Rightarrow> output_format \<Rightarrow> http_request list \<Rightarrow> (js_error + string) \<times> http_request list" where
  "mineru_status config axios stringify tid format sent =
     (case mineruRequest config axios (''/extract/task/'' @ tid) GET None sent of
        (Inl e, sent) \<Rightarrow> (Inl e, sent)
      | (Inr status, sent) \<Rightarrow>
          (Inr (if format = Detailed then stringify status else formatConciseStatus status), sent))"

definition mineru_batch ::
  "config \<Rightarrow> (http_request \<Rightarrow> batch_response http_outcome) \<Rightarrow> batch_params \<Rightarrow>
   http_request list \<Rightarrow> (js_error + string) \<times> http_request list" where
  "mineru_batch config axios params sent =
     (if length (urls params) > 200
      then (Inl (Error ''Max 200 URLs per batch. Split into smaller batches.''), sent)
      else
        let requestData =
              [(''files'', JArray (map (\<lambda>u. JObject [(''url'', JString u)]) (urls params))),
               (''model_version'', JString (model_version config params))] @
              option_entries params
        in case mineruRequest config axios ''/extract/task/batch'' POST
                  (Some (JObject requestData)) sent of
             (Inl e, sent) \<Rightarrow> (Inl e, sent)
           | (Inr result, sent) \<Rightarrow>
               (Inr (''Batch created: '' @ batch_id result @ [CHR 0x0A] @
                     show_int (int (length (urls params))) @ '' files queued.'' @ [CHR 0x0A] @
                     ''Use mineru_batch_status to check progress.''), sent))"

definition mineru_batch_status ::
  "config \<Rightarrow> (http_request \<Rightarrow> batch_status http_outcome) \<Rightarrow> (batch_status \<Rightarrow> string) \<Rightarrow>
   string \<Rightarrow> number option \<Rightarrow> number option \<Rightarrow> output_format \<Rightarrow> http_request list \<Rightarrow>
   (js_error + string) \<times> http_request list" where
  "mineru_batch_status config axios stringify bid limit offset format sent =
     (case mineruRequest config axios (''/extract-results/batch/'' @ bid) GET None sent of
        (Inl e, sent) \<Rightarrow> (Inl e, sent)
      | (Inr batch, sent) \<Rightarrow>
          (Inr (if format = Detailed then stringify batch
                else formatConciseBatch batch (case limit of Some l \<Rightarrow> l | None \<Rightarrow> Finite 10)
                       (case offset of Some k \<Rightarrow> k | None \<Rightarrow> Finite 0)), sent))"

section \<open>The HTTP gateway (server.ts)\<close>

text \<open>
  A transport object of the SDK is known to the gateway by its \<open>sessionId\<close> field,
  which the SDK sets when the session is initialised. Transport objects live in
  \<open>objects\<close> and are referred to by their index there.
\<close>

record transport =
  sessionId :: "string option"

datatype verb = Post | Get | Delete

record 'b request =
  verb :: verb
  mcp_session_id :: "string option"
  body :: 'b

text \<open>
  The callbacks that the SDK invokes on a transport while it handles a request:
  \<open>onsessioninitialized\<close> with the id that \<open>sessionIdGenerator\<close> (\<open>randomUUID\<close>)
  produced, after storing that id in the transport's \<open>sessionId\<close>, and \<open>onclose\<close>.
\<close>

datatype sdk_event = SessionInitialized string | Close

text \<open>
  What a route handler does with the response: it sends a status with a message
  itself, leaves the response to \<open>transport.handleRequest\<close> of the transport
  given, or throws, in which case its promise is rejected and it has sent nothing.
\<close>

datatype reply = Status nat string | Delegated nat | Rejected js_error

text \<open>
  The state of the process: the own properties of the object \<open>transports\<close>, the
  transport objects created so far, the transports to which a server made by
  \<open>createServer\<close> has been connected, and the calls of
  \<open>transport.handleRequest\<close> in order. Tool handlers run only inside such a call.
\<close>

record 'b gateway =
  transports :: "string \<rightharpoonup> nat"
  objects :: "transport list"
  servers :: "nat list"
  handled :: "(nat \<times> 'b request) list"

definition onsessioninitialized :: "nat \<Rightarrow> string \<Rightarrow> 'b gateway \<Rightarrow> 'b gateway" where
  "onsessioninitialized t newSessionId g =
     g\<lparr>transports := (transports g)(newSessionId \<mapsto> t)\<rparr>"

definition onclose :: "nat \<Rightarrow> 'b gateway \<Rightarrow> 'b gateway" where
  "onclose t g =
     (if t < length (objects g) then
        (case sessionId (objects g ! t) of
           Some s \<Rightarrow> if s \<noteq> [] then g\<lparr>transports := (transports g)(s := None)\<rparr> else g
         | None \<Rightarrow> g)
      else g)"

fun fire :: "nat \<Rightarrow> 'b gateway \<Rightarrow> sdk_event \<Rightarrow> 'b gateway" where
  "fire t g (SessionInitialized s) =
     onsessioninitialized t s (g\<lparr>objects := (objects g)[t := \<lparr>sessionId = Some s\<rparr>]\<rparr>)"
| "fire t g Close = onclose t g"

text \<open>
  \<open>await transport.handleRequest(req, res, req.body)\<close>: the call is recorded and the
  callbacks the SDK invokes during it are run. The SDK is the parameter \<open>sdk\<close>,
  which gives those callbacks for a transport and a request.
\<close>

definition handleRequest ::
  "(transport \<Rightarrow> 'b request \<Rightarrow> sdk_event list) \<Rightarrow> nat \<Rightarrow> 'b request \<Rightarrow> 'b gateway \<Rightarrow>
   reply \<times> 'b gateway" where
  "handleRequest sdk t req g =
     (Delegated t,
      foldl (fire t) (g\<lparr>handled := handled g @ [(t, req)]\<rparr>) (sdk (objects g ! t) req))"

text \<open>
  \<open>app.post("/mcp")\<close>. An inherited member of \<open>transports\<close> is truthy, so it
  is taken for a transport; it has no \<open>handleRequest\<close>, and calling it is a
  \<open>TypeError\<close>. \<open>isInitializeRequest\<close> of the SDK is a parameter.
\<close>

definition app_post ::
  "(transport \<Rightarrow> 'b request \<Rightarrow> sdk_event list) \<Rightarrow> ('b \<Rightarrow> bool) \<Rightarrow> 'b request \<Rightarrow> 'b gateway \<Rightarrow>
   reply \<times> 'b gateway" where
  "app_post sdk isInitializeRequest req g =
     (let found = (case mcp_session_id req of
                     Some s \<Rightarrow> if s \<noteq> [] then js_get (transports g) s else Missing
                   | None \<Rightarrow> Missing)
      in case found of
           Own t \<Rightarrow> handleRequest sdk t req g
         | Inherited k \<Rightarrow> (Rejected (TypeError ''transport.handleRequest is not a function''), g)
         | Missing \<Rightarrow>
             if \<not> truthy (mcp_session_id req) \<and> isInitializeRequest (body req)
             then let t = length (objects g);
                      g = g\<lparr>objects := objects g @ [\<lparr>sessionId = None\<rparr>]\<rparr>;
                      g = g\<lparr>servers := servers g @ [t]\<rparr>
                  in handleRequest sdk t req g
             else (Status 400 ''Bad Request: No valid session ID provided'', g))"

text \<open>\<open>app.get("/mcp")\<close> and \<open>app.delete("/mcp")\<close> have the same body.\<close>

definition app_get ::
  "(transport \<Rightarrow> 'b request \<Rightarrow> sdk_event list) \<Rightarrow> 'b request \<Rightarrow> 'b gateway \<Rightarrow>
   reply \<times> 'b gateway" where
  "app_get sdk req g =
     (case mcp_session_id req of
        None \<Rightarrow> (Status 400 ''Invalid or missing session ID'', g)
      | Some s \<Rightarrow>
          if s = [] then (Status 400 ''Invalid or missing session ID'', g)
          else (case js_get (transports g) s of
                  Missing \<Rightarrow> (Status 400 ''Invalid or missing session ID'', g)
                | Own t \<Rightarrow> handleRequest sdk t req g
                | Inherited k \<Rightarrow>
                    (Rejected (TypeError ''transport.handleRequest is not a function''), g)))"

definition app_delete ::
  "(transport \<Rightarrow> 'b request \<Rightarrow> sdk_event list) \<Rightarrow> 'b request \<Rightarrow> 'b gateway \<Rightarrow>
   reply \<times> 'b gateway" where
  "app_delete sdk req g =
     (case mcp_session_id req of
        None \<Rightarrow> (Status 400 ''Invalid or missing session ID'', g)
      | Some s \<Rightarrow>
          if s = [] then (Status 400 ''Invalid or missing session ID'', g)
          else (case js_get (transports g) s of
                  Missing \<Rightarrow> (Status 400 ''Invalid or missing session ID'', g)
                | Own t \<Rightarrow> handleRequest sdk t req g
                | Inherited k \<Rightarrow>
                    (Rejected (TypeError ''transport.handleRequest is not a function''), g)))"

text \<open>The three routes of \<open>/mcp\<close>.\<close>

definition mcp ::
  "(transport \<Rightarrow> 'b request \<Rightarrow> sdk_event list) \<Rightarrow> ('b \<Rightarrow> bool) \<Rightarrow> 'b request \<Rightarrow> 'b gateway \<Rightarrow>
   reply \<times> 'b gateway" where
  "mcp sdk isInitializeRequest req g =
     (case verb req of
        Post \<Rightarrow> app_post sdk isInitializeRequest req g
      | Get \<Rightarrow> app_get sdk req g
      | Delete \<Rightarrow> app_delete sdk req g)"

text \<open>The process starts with no session and no transport.\<close>

definition initial :: "'b gateway" where
  "initial = \<lparr>transports = Map.empty, objects = [], servers = [], handled = []\<rparr>"

section \<open>The specification's wording\<close>

text \<open>
  The extra part of a concise status as the specification words it: the result URL
  when the task is done, the page progress when it is running, the error message when
  it has failed; nothing where that field is absent or empty.
\<close>

definition status_extra :: "task_status \<Rightarrow> string option" where
  "status_extra st =
     (if state st = ''done'' then (if truthy (full_zip_url st) then full_zip_url st else None)
      else if state st = ''running''
      then map_option (\<lambda>p. show_int (extracted_pages p) @ ''/'' @ show_int (total_pages p) @
                            '' pages'') (extract_progress st)
      else if state st = ''failed'' then (if truthy (err_msg st) then err_msg st else None)
      else None)"

text \<open>
  The page as the specification words it: the elements with index in
  \<open>[offset, offset + limit)\<close> clamped to \<open>[0, N]\<close>, in their order.
\<close>

definition spec_slice :: "'a list \<Rightarrow> int \<Rightarrow> int \<Rightarrow> 'a list" where
  "spec_slice xs offset limit =
     map (\<lambda>i. xs ! i) [nat (max 0 offset) ..< nat (min (int (length xs)) (offset + limit))]"

text \<open>
  The lines of a page as the specification words them: the header with the count of
  done entries over the whole sequence, the lines of the entries of the page, and the
  continuation hint exactly when \<open>offset + limit < N\<close>.
\<close>

definition spec_page :: "batch_status \<Rightarrow> int \<Rightarrow> int \<Rightarrow> string list" where
  "spec_page batch limit offset =
     (''Batch '' @ batch_id batch @ '': '' @
        show_int (int (length (filter (\<lambda>r. entry_state r = ''done'')
                                 (elements (extract_result batch))))) @
        ''/'' @ show_int (int (length (elements (extract_result batch)))) @ '' done'') #
     map batch_line (spec_slice (elements (extract_result batch)) offset limit) @
     (if offset + limit < int (length (elements (extract_result batch)))
      then [''[+'' @ show_int (int (length (elements (extract_result batch))) - offset - limit) @
            '' more, use offset='' @ show_int (offset + limit) @ '']'']
      else [])"

text \<open>
  The message of a failed remote call as the specification words it: the table's
  entry when the code is known, else the message of the service, else
  \<open>Unknown error\<close>.
\<close>

definition spec_message :: "string \<Rightarrow> string option \<Rightarrow> string" where
  "spec_message c m =
     (case map_of ERROR_MESSAGES c of
        Some e \<Rightarrow> e
      | None \<Rightarrow> (case m of Some s \<Rightarrow> if s \<noteq> [] then s else ''Unknown error''
                 | None \<Rightarrow> ''Unknown error''))"

text \<open>
  A client that pages through a batch with a fixed limit: it asks for a page and,
  as long as the page advertises a next offset, asks for that offset. The result is
  the offset of the last page, or \<open>None\<close> when the given number of requests did
  not reach a last page.
\<close>

fun follow_hints :: "batch_status \<Rightarrow> number \<Rightarrow> nat \<Rightarrow> number \<Rightarrow> number option" where
  "follow_hints batch limit 0 offset = None"
| "follow_hints batch limit (Suc fuel) offset =
     (case continuation batch limit offset of
        None \<Rightarrow> Some offset
      | Some h \<Rightarrow> follow_hints batch limit fuel (snd h))"

text \<open>
  The example of the specification: a batch of 25 results, here with the first seven
  done.
\<close>

definition batch25 :: batch_status where
  "batch25 =
     \<lparr>batch_id = ''b1'',
      extract_result =
        Array (map (\<lambda>i. \<lparr>file_name = ''f'' @ show_nat i,
                          entry_state = (if i < 7 then ''done'' else ''pending''),
                          entry_full_zip_url = None, entry_err_msg = None,
                          entry_data_id = None, entry_extract_progress = None\<rparr>) [0..<25])\<rparr>"

text \<open>Example values: a configuration with a key and one without, and options left out.\<close>

definition example_config :: config where
  "example_config = \<lparr>mineruApiKey = ''key'', mineruBaseUrl = [], mineruDefaultModel = []\<rparr>"

definition keyless_config :: config where
  "keyless_config = \<lparr>mineruApiKey = [], mineruBaseUrl = [], mineruDefaultModel = []\<rparr>"

definition example_batch_params :: "nat \<Rightarrow> batch_params" where
  "example_batch_params n =
     \<lparr>model = None, ocr = None, formula = None, table = None, language = None,
      formats = None, urls = replicate n ''https://example.com/a.pdf''\<rparr>"

definition example_parse_params :: parse_params where
  "example_parse_params =
     \<lparr>model = None, ocr = None, formula = None, table = None, language = None,
      formats = None, url = ''https://example.com/a.pdf'', pages = None\<rparr>"

text \<open>
  An SDK that answers every request with the session-initialised callback for the id
  \<open>s1\<close>, and message bodies given by the name of their method.
\<close>

definition example_sdk :: "transport \<Rightarrow> string request \<Rightarrow> sdk_event list" where
  "example_sdk t req = [SessionInitialized ''s1'']"

definition example_isInitializeRequest :: "string \<Rightarrow> bool" where
  "example_isInitializeRequest b = (b = ''initialize'')"

section \<open>The concise status\<close>

text \<open>Below \<open>2^53\<close> in magnitude an integer is a double and is printed in full.\<close>

lemma round_double_safe: "\<bar>n\<bar> < 2 ^ 53 \<Longrightarrow> round_double n = n"
  by (simp add: round_double_def)

lemma js_number_safe:
  assumes "\<bar>n\<bar> < 2 ^ 53"
  shows "js_number n = Finite n"
proof -
  have "(2::int) ^ 53 \<le> 2 ^ 1024"
    by (rule power_increasing) simp_all
  then have "\<not> 2 ^ 1024 \<le> n" and "\<not> n \<le> - (2 ^ 1024)"
    using assms by linarith+
  then show ?thesis
    using assms by (simp add: js_number_def round_double_safe)
qed

lemma show_int_safe: "\<bar>n\<bar> < 2 ^ 53 \<Longrightarrow> show_int n = decimal n"
  by (simp add: show_int_def js_number_safe)

lemma show_int_3: "show_int 3 = ''3''"
  by (simp add: show_int_safe decimal_def show_nat.simps)

lemma show_int_10: "show_int 10 = ''10''"
  by (simp add: show_int_safe decimal_def show_nat.simps)

text \<open>
  From \<open>2^53\<close> on the shortest digits are printed, and from \<open>10^21\<close> on the
  exponent form: \<open>10^21\<close> is \<open>1e+21\<close>.
\<close>

lemma shortest_first:
  assumes "candidates a (length (show_nat a) - 1) = c # cs" and "1 < length (show_nat a)"
  shows "shortest a = c"
proof -
  obtain m where m: "length (show_nat a) = Suc m" and "1 \<le> m"
    using assms(2) by (cases "length (show_nat a)") auto
  then have "rev [1 ..< length (show_nat a)] = m # rev [1 ..< m]"
    by simp
  then show ?thesis
    using assms(1) m by (simp add: shortest_def)
qed

lemma digits_e21: "show_nat 1000000000000000000000 = ''1000000000000000000000''"
  by (simp add: show_nat.simps)

lemma length_e21: "length (show_nat 1000000000000000000000) = 22"
  by (simp add: digits_e21)

lemma bit_length_e21:
  "bit_length 1000000000000000000000 = 70" "bit_length 2000000000000000000000 = 71"
  by (simp_all add: bit_length.simps)

lemma round_double_e21:
  "round_double 1000000000000000000000 = 1000000000000000000000"
  "round_double 2000000000000000000000 = 2000000000000000000000"
  by (simp_all add: round_double_def bit_length_e21 Let_def)

lemma candidates_e21: "candidates 1000000000000000000000 21 = [1000000000000000000000]"
  by (simp add: candidates_def round_double_e21 Let_def)

lemma shortest_e21: "shortest 1000000000000000000000 = 1000000000000000000000"
proof (rule shortest_first [where cs = "[]"])
  show "candidates 1000000000000000000000 (length (show_nat 1000000000000000000000) - 1) =
          [1000000000000000000000]"
    unfolding length_e21 using candidates_e21 by simp
  show "1 < length (show_nat 1000000000000000000000)"
    unfolding length_e21 by simp
qed

lemma show_int_exponent: "show_int (10 ^ 21) = ''1e+21''"
proof -
  have "js_number 1000000000000000000000 = Finite 1000000000000000000000"
    by (simp add: js_number_def round_double_e21)
  moreover have "big_text 1000000000000000000000 = ''1e+21''"
    unfolding big_text_def digits_e21 by (simp add: show_nat.simps)
  ultimately show ?thesis
    by (simp add: show_int_def shortest_e21)
qed

text \<open>
  C8. For every task status record the concise status is
  \<open><state> | <task_id>\<close>, followed by \<open> | <extra>\<close> when there is an extra part:
  the result URL when the state is done, \<open><extracted>/<total> pages\<close> when it is
  running, the error message when it is failed (and no extra part when that field is
  absent or empty, or in any other state). A running record with progress 3 of 10
  gives \<open>running | <task_id> | 3/10 pages\<close>.
\<close>

theorem formatConciseStatus_format:
  "formatConciseStatus st =
     state st @ '' | '' @ task_id st @
       (case status_extra st of None \<Rightarrow> [] | Some e \<Rightarrow> '' | '' @ e)
   \<and> formatConciseStatus
        \<lparr>task_id = t, data_id = d, state = ''running'', full_zip_url = u, err_msg = e,
         extract_progress = Some \<lparr>extracted_pages = 3, total_pages = 10, start_time = s\<rparr>\<rparr>
      = ''running | '' @ t @ '' | 3/10 pages''"
proof
  show "formatConciseStatus st =
     state st @ '' | '' @ task_id st @
       (case status_extra st of None \<Rightarrow> [] | Some e \<Rightarrow> '' | '' @ e)"
    by (cases "full_zip_url st"; cases "err_msg st"; cases "extract_progress st")
       (simp_all add: formatConciseStatus_def status_extra_def Let_def)
next
  show "formatConciseStatus
        \<lparr>task_id = t, data_id = d, state = ''running'', full_zip_url = u, err_msg = e,
         extract_progress = Some \<lparr>extracted_pages = 3, total_pages = 10, start_time = s\<rparr>\<rparr>
      = ''running | '' @ t @ '' | 3/10 pages''"
    by (simp add: formatConciseStatus_def show_int_3 show_int_10)
qed

section \<open>The concise batch status\<close>

lemma foldl_push: "foldl (\<lambda>ls r. ls @ [f r]) acc xs = acc @ map f xs"
  by (induction xs arbitrary: acc) simp_all

lemma conciseBatchLines_unfold:
  "conciseBatchLines batch limit offset =
     header_line batch #
     map batch_line (js_slice (elements (extract_result batch)) offset (js_add offset limit)) @
     (case continuation batch limit offset of Some h \<Rightarrow> [hint_line h] | None \<Rightarrow> [])"
  by (simp add: conciseBatchLines_def Let_def foldl_push split: option.split)

lemma elements_length: "int (length (elements a)) < 2 ^ 32"
proof -
  have "length (elements a) < 2 ^ 32"
    using elements [of a] by simp
  then show ?thesis
    by (metis of_nat_less_iff of_nat_numeral of_nat_power)
qed

lemma map_nth_upt_take_drop:
  assumes "b \<le> length xs"
  shows "map (\<lambda>i. xs ! i) [a ..< b] = take (b - a) (drop a xs)"
proof (rule nth_equalityI)
  show "length (map (\<lambda>i. xs ! i) [a ..< b]) = length (take (b - a) (drop a xs))"
    using assms by simp
next
  fix i assume "i < length (map (\<lambda>i. xs ! i) [a ..< b])"
  then have i: "i < b - a" by simp
  then show "map (\<lambda>i. xs ! i) [a ..< b] ! i = take (b - a) (drop a xs) ! i"
    using assms by simp
qed

text \<open>For indices that are not negative, \<open>slice\<close> is the clamped interval.\<close>

lemma js_slice_spec:
  assumes "0 \<le> offset" "0 \<le> offset + limit"
  shows "js_slice xs (Finite offset) (Finite (offset + limit)) = spec_slice xs offset limit"
proof -
  let ?len = "int (length xs)"
  let ?b = "nat (min ?len (offset + limit))"
  have b: "?b \<le> length xs" by simp
  show ?thesis
  proof (cases "offset \<le> ?len")
    case True
    have n: "nat (min (offset + limit) ?len - offset) = ?b - nat offset"
      using assms by (simp add: min_def) linarith
    have "js_slice xs (Finite offset) (Finite (offset + limit)) =
            take (nat (min (offset + limit) ?len - offset)) (drop (nat offset) xs)"
      using assms True by (simp add: js_slice_def Let_def)
    then have "js_slice xs (Finite offset) (Finite (offset + limit)) =
                 take (?b - nat offset) (drop (nat offset) xs)"
      by (simp only: n)
    also have "\<dots> = spec_slice xs offset limit"
      using assms map_nth_upt_take_drop [OF b, of "nat offset"]
      by (simp add: spec_slice_def max_def)
    finally show ?thesis .
  next
    case False
    then have "js_slice xs (Finite offset) (Finite (offset + limit)) = []"
      using assms by (simp add: js_slice_def Let_def)
    moreover have "spec_slice xs offset limit = []"
      using assms False by (simp add: spec_slice_def)
    ultimately show ?thesis by simp
  qed
qed

text \<open>The batch of 25: its entries, their number and the number of done ones.\<close>

lemma batch25_elements:
  "elements (extract_result batch25) =
     map (\<lambda>i. \<lparr>file_name = ''f'' @ show_nat i,
                entry_state = (if i < 7 then ''done'' else ''pending''),
                entry_full_zip_url = None, entry_err_msg = None,
                entry_data_id = None, entry_extract_progress = None\<rparr>) [0..<25]"
  by (simp add: batch25_def Array_inverse)

lemma batch25_length: "length (elements (extract_result batch25)) = 25"
  by (simp add: batch25_elements)

lemma batch25_done:
  "length (filter (\<lambda>r. entry_state r = ''done'') (elements (extract_result batch25))) = 7"
  unfolding batch25_elements by code_simp

lemma batch25_header: "header_line batch25 = ''Batch b1: 7/25 done''"
  by (simp add: header_line_def batch25_length batch25_done show_int_safe decimal_def
        show_nat.simps) (simp add: batch25_def)

text \<open>
  C5, as stated, fails for a negative offset: \<open>slice\<close> counts a negative index
  from the end of the array. On the batch of 25 with \<open>limit = 10\<close> and
  \<open>offset = -3\<close> the code calls \<open>slice(-3, 7)\<close>, which is empty, and returns the
  header and the hint only, where the clamped interval \<open>[0, 7)\<close> has seven entries.
\<close>

theorem formatConciseBatch_negative_offset:
  "conciseBatchLines batch25 (Finite 10) (Finite (- 3)) =
     [''Batch b1: 7/25 done'', ''[+18 more, use offset=7]'']
   \<and> conciseBatchLines batch25 (Finite 10) (Finite (- 3)) \<noteq> spec_page batch25 10 (- 3)"
proof -
  have c: "continuation batch25 (Finite 10) (Finite (- 3)) = Some (Finite 18, Finite 7)"
    by (simp add: continuation_def batch25_length js_number_safe js_sub_def)
  have s: "js_slice (elements (extract_result batch25)) (Finite (- 3)) (Finite 7) = []"
    by (simp add: js_slice_def batch25_length)
  have l: "conciseBatchLines batch25 (Finite 10) (Finite (- 3)) =
             [''Batch b1: 7/25 done'', ''[+18 more, use offset=7]'']"
    by (simp add: conciseBatchLines_unfold c js_number_safe s batch25_header hint_line_def
          decimal_def show_nat.simps)
  have n: "length (spec_page batch25 10 (- 3)) = 9"
    by (simp add: spec_page_def spec_slice_def batch25_length)
  have "conciseBatchLines batch25 (Finite 10) (Finite (- 3)) \<noteq> spec_page batch25 10 (- 3)"
  proof
    assume "conciseBatchLines batch25 (Finite 10) (Finite (- 3)) = spec_page batch25 10 (- 3)"
    then have "length (conciseBatchLines batch25 (Finite 10) (Finite (- 3))) = 9"
      using n by simp
    then show False
      unfolding l by simp
  qed
  with l show ?thesis by simp
qed

text \<open>
  The arithmetic of the hint is that of doubles: with 300 entries, offset \<open>2^60\<close>
  and limit \<open>256 - 2^60\<close> the difference \<open>300 - 2^60\<close> is rounded to
  \<open>256 - 2^60\<close>, and the hint counts 0 remaining entries.
\<close>

lemma continuation_rounds:
  assumes "length (elements (extract_result batch)) = 300"
  shows "continuation batch (Finite (256 - 2 ^ 60)) (Finite (2 ^ 60)) =
           Some (Finite 0, Finite 256)"
proof -
  have b: "bit_length 1152921504606846676 = 60"
    by (simp add: bit_length.simps)
  have r: "round_double (- 1152921504606846676) = - 1152921504606846720"
    by (simp add: round_double_def b Let_def)
  have n: "js_number (- 1152921504606846676) = Finite (- 1152921504606846720)"
    by (simp add: js_number_def r Let_def)
  show ?thesis
    using assms n by (simp add: continuation_def js_sub_def js_number_safe)
qed

text \<open>
  C5, amended. For every batch result sequence of length \<open>N\<close> and all integers
  \<open>limit\<close> and \<open>offset\<close> with \<open>0 \<le> offset < 2^53\<close> and
  \<open>0 \<le> offset + limit < 2^53\<close>, the concise batch status consists of the header
  with the count of done entries over the whole sequence and \<open>N\<close>, the lines of
  exactly the entries with index in \<open>[offset, offset + limit)\<close> clamped to
  \<open>[0, N]\<close>, in their order, and the continuation hint, with
  \<open>N - offset - limit\<close> remaining entries and next offset \<open>offset + limit\<close>, if
  and only if \<open>offset + limit < N\<close>; the text is these lines joined by newlines.
\<close>

theorem formatConciseBatch_page:
  assumes "0 \<le> offset" and "offset < 2 ^ 53"
    and "0 \<le> offset + limit" and "offset + limit < 2 ^ 53"
  shows "conciseBatchLines batch (Finite limit) (Finite offset) = spec_page batch limit offset
         \<and> formatConciseBatch batch (Finite limit) (Finite offset) =
             js_join [CHR 0x0A] (spec_page batch limit offset)"
proof -
  let ?n = "int (length (elements (extract_result batch)))"
  have n: "0 \<le> ?n" "?n < 2 ^ 32"
    using elements_length [of "extract_result batch"] by simp_all
  have next_safe: "\<bar>offset + limit\<bar> < 2 ^ 53"
    using assms by simp
  have rest_safe: "\<bar>?n - offset\<bar> < 2 ^ 53"
    using assms n by simp
  have remaining_safe: "\<bar>?n - offset - limit\<bar> < 2 ^ 53"
    using assms n by simp
  have next_offset: "js_add (Finite offset) (Finite limit) = Finite (offset + limit)"
    using next_safe by (simp add: js_number_safe)
  have rest: "js_sub (Finite ?n) (Finite offset) = Finite (?n - offset)"
    using rest_safe by (simp add: js_sub_def js_number_safe)
  have remaining:
    "js_sub (js_sub (Finite ?n) (Finite offset)) (Finite limit) = Finite (?n - offset - limit)"
    unfolding rest using remaining_safe by (simp add: js_sub_def js_number_safe)
  have c: "continuation batch (Finite limit) (Finite offset) =
             (if offset + limit < ?n then Some (Finite (?n - offset - limit), Finite (offset + limit))
              else None)"
    unfolding continuation_def Let_def next_offset remaining by simp
  have t: "number_text (Finite (?n - offset - limit)) = show_int (?n - offset - limit)"
    "number_text (Finite (offset + limit)) = show_int (offset + limit)"
    using assms remaining_safe by (simp_all add: show_int_safe)
  have l: "conciseBatchLines batch (Finite limit) (Finite offset) = spec_page batch limit offset"
    unfolding conciseBatchLines_unfold next_offset js_slice_spec [OF assms(1) assms(3)] c
    by (simp add: spec_page_def header_line_def hint_line_def t Let_def del: number_text.simps)
  show ?thesis
    unfolding formatConciseBatch_def l by simp
qed

text \<open>
  The second example of the specification: \<open>limit = 10\<close> and \<open>offset = 20\<close> on the
  batch of 25 give the entries 20 to 24 and no hint.
\<close>

theorem formatConciseBatch_page_witness:
  "(0::int) \<le> 20 \<and> (20::int) < 2 ^ 53 \<and> (0::int) \<le> 20 + 10 \<and> (20::int) + 10 < 2 ^ 53 \<and>
   formatConciseBatch batch25 (Finite 10) (Finite 20) =
     ''Batch b1: 7/25 done'' @ [CHR 0x0A] @ ''- f20: pending'' @ [CHR 0x0A] @
     ''- f21: pending'' @ [CHR 0x0A] @ ''- f22: pending'' @ [CHR 0x0A] @
     ''- f23: pending'' @ [CHR 0x0A] @ ''- f24: pending''"
proof -
  have u: "[20..<25] = [20, 21, 22, 23, 24]"
    by code_simp
  have p: "map batch_line (spec_slice (elements (extract_result batch25)) 20 10) =
             [''- f20: pending'', ''- f21: pending'', ''- f22: pending'', ''- f23: pending'',
              ''- f24: pending'']"
    by (simp add: spec_slice_def batch25_elements u batch_line_def show_nat.simps)
  have h: "spec_page batch25 10 20 =
             [''Batch b1: 7/25 done'', ''- f20: pending'', ''- f21: pending'',
              ''- f22: pending'', ''- f23: pending'', ''- f24: pending'']"
    using batch25_header p
    by (simp add: spec_page_def header_line_def batch25_length Let_def)
  have e: "js_join [CHR 0x0A] (spec_page batch25 10 20) =
     ''Batch b1: 7/25 done'' @ [CHR 0x0A] @ ''- f20: pending'' @ [CHR 0x0A] @
     ''- f21: pending'' @ [CHR 0x0A] @ ''- f22: pending'' @ [CHR 0x0A] @
     ''- f23: pending'' @ [CHR 0x0A] @ ''- f24: pending''"
    unfolding h by simp
  show ?thesis
    using formatConciseBatch_page [of 20 10 batch25] e by simp
qed

lemma js_slice_empty: "0 \<le> offset \<Longrightarrow> js_slice xs (Finite offset) (Finite offset) = []"
  by (simp add: js_slice_def Let_def)

lemma follow_hints_stuck:
  "continuation batch limit offset = Some (r, offset) \<Longrightarrow>
   follow_hints batch limit fuel offset = None"
  by (induction fuel) simp_all

text \<open>
  C10. For every batch result sequence of length \<open>N\<close> and every offset with
  \<open>0 \<le> offset < N\<close>, the concise batch status for \<open>limit = 0\<close> is the header line
  and the continuation hint only, and the hint advertises the given offset as the
  next one; so a client that follows the hints asks for the same page again and again
  and, whatever the number of requests, never reaches a last page.
\<close>

theorem limit_zero_no_progress:
  assumes "0 \<le> offset" and "offset < int (length (elements (extract_result batch)))"
  shows "conciseBatchLines batch (Finite 0) (Finite offset) =
           [header_line batch,
            ''[+'' @ show_int (int (length (elements (extract_result batch))) - offset) @
            '' more, use offset='' @ show_int offset @ '']'']
         \<and> formatConciseBatch batch (Finite 0) (Finite offset) =
             header_line batch @ [CHR 0x0A] @
             ''[+'' @ show_int (int (length (elements (extract_result batch))) - offset) @
             '' more, use offset='' @ show_int offset @ '']''
         \<and> continuation batch (Finite 0) (Finite offset) =
             Some (Finite (int (length (elements (extract_result batch))) - offset),
                   Finite offset)
         \<and> follow_hints batch (Finite 0) fuel (Finite offset) = None"
proof -
  let ?n = "int (length (elements (extract_result batch)))"
  have n: "?n < 2 ^ 32"
    by (rule elements_length)
  have o: "\<bar>offset\<bar> < 2 ^ 53" and d: "\<bar>?n - offset\<bar> < 2 ^ 53"
    using assms n by simp_all
  have a: "js_add (Finite offset) (Finite 0) = Finite offset"
    using o by (simp add: js_number_safe)
  have r: "js_sub (js_sub (Finite ?n) (Finite offset)) (Finite 0) = Finite (?n - offset)"
    using d by (simp add: js_sub_def js_number_safe)
  have c: "continuation batch (Finite 0) (Finite offset) = Some (Finite (?n - offset), Finite offset)"
    unfolding continuation_def Let_def a r using assms by simp
  have t: "number_text (Finite (?n - offset)) = show_int (?n - offset)"
    "number_text (Finite offset) = show_int offset"
    using o d by (simp_all add: show_int_safe)
  have l: "conciseBatchLines batch (Finite 0) (Finite offset) =
           [header_line batch,
            ''[+'' @ show_int (?n - offset) @ '' more, use offset='' @ show_int offset @ '']'']"
    unfolding conciseBatchLines_unfold a c using assms(1)
    by (simp add: js_slice_empty hint_line_def t del: number_text.simps)
  have f: "formatConciseBatch batch (Finite 0) (Finite offset) =
             header_line batch @ [CHR 0x0A] @
             ''[+'' @ show_int (?n - offset) @ '' more, use offset='' @ show_int offset @ '']''"
    unfolding formatConciseBatch_def l by simp
  show ?thesis
    using c l f follow_hints_stuck [OF c] by blast
qed

theorem limit_zero_no_progress_witness:
  "(0::int) \<le> 5 \<and> 5 < int (length (elements (extract_result batch25))) \<and>
   formatConciseBatch batch25 (Finite 0) (Finite 5) =
     ''Batch b1: 7/25 done'' @ [CHR 0x0A] @ ''[+20 more, use offset=5]'' \<and>
   follow_hints batch25 (Finite 0) 1000 (Finite 5) = None"
proof -
  have n: "int (length (elements (extract_result batch25))) = 25"
    by (simp add: batch25_length)
  have s: "show_int 20 = ''20''" "show_int 5 = ''5''"
    by (simp_all add: show_int_safe decimal_def show_nat.simps)
  show ?thesis
    using limit_zero_no_progress [of 5 batch25 1000] n batch25_header s by simp
qed

section \<open>The batch limit\<close>

text \<open>
  C4. For every call of the batch handler with more than 200 URLs, the handler fails
  with the validation error before any remote call: the result is the error and the
  log of requests handed to the HTTP client is the one before the call.
\<close>

theorem mineru_batch_limit:
  assumes "length (urls params) > 200"
  shows "mineru_batch config axios params sent =
           (Inl (Error ''Max 200 URLs per batch. Split into smaller batches.''), sent)"
  using assms by (simp add: mineru_batch_def)

theorem mineru_batch_limit_witness:
  "length (urls (example_batch_params 201)) > 200
   \<and> mineru_batch example_config
        (\<lambda>r. Fulfilled \<lparr>code = CodeNumber 0, msg = None, data = \<lparr>batch_id = ''b''\<rparr>\<rparr>)
        (example_batch_params 201) []
      = (Inl (Error ''Max 200 URLs per batch. Split into smaller batches.''), [])"
proof -
  have n: "length (urls (example_batch_params 201)) > 200"
    by (simp add: example_batch_params_def)
  show ?thesis
    using n mineru_batch_limit [OF n] by simp
qed

section \<open>The missing credential\<close>

lemma mineruRequest_no_key:
  "apiKey config = [] \<Longrightarrow>
   mineruRequest config axios endpoint meth payload sent =
     (Inl (Error ''MINERU_API_KEY not set. Add it to your environment.''), sent)"
  by (simp add: mineruRequest_def)

text \<open>
  C7. When the API key is empty, every remote call fails at once with the
  configuration error and hands no request to the HTTP client; so does each of the
  four tool handlers (the batch handler with more than 200 URLs fails with the
  validation error before it reaches the remote call).
\<close>

theorem missing_credential:
  assumes "mineruApiKey config = []"
  shows "mineruRequest config axios endpoint meth payload sent =
           (Inl (Error ''MINERU_API_KEY not set. Add it to your environment.''), sent)
       \<and> mineru_parse config axios1 pp sent =
           (Inl (Error ''MINERU_API_KEY not set. Add it to your environment.''), sent)
       \<and> mineru_status config axios2 stringify2 tid fmt sent =
           (Inl (Error ''MINERU_API_KEY not set. Add it to your environment.''), sent)
       \<and> mineru_batch config axios3 bp sent =
           (Inl (Error (if length (urls bp) > 200
                        then ''Max 200 URLs per batch. Split into smaller batches.''
                        else ''MINERU_API_KEY not set. Add it to your environment.'')), sent)
       \<and> mineru_batch_status config axios4 stringify4 bid lim off fmt sent =
           (Inl (Error ''MINERU_API_KEY not set. Add it to your environment.''), sent)"
  using assms
  by (simp add: mineru_parse_def mineru_status_def mineru_batch_def mineru_batch_status_def
        mineruRequest_no_key apiKey_def Let_def)

theorem missing_credential_witness:
  "mineruApiKey keyless_config = []
   \<and> mineru_parse keyless_config
        (\<lambda>r. Fulfilled \<lparr>code = CodeNumber 0, msg = None, data = \<lparr>task_id = ''t''\<rparr>\<rparr>)
        example_parse_params []
      = (Inl (Error ''MINERU_API_KEY not set. Add it to your environment.''), [])
   \<and> mineru_batch keyless_config
        (\<lambda>r. Fulfilled \<lparr>code = CodeNumber 0, msg = None, data = \<lparr>batch_id = ''b''\<rparr>\<rparr>)
        (example_batch_params 2) []
      = (Inl (Error ''MINERU_API_KEY not set. Add it to your environment.''), [])"
proof -
  have k: "mineruApiKey keyless_config = []"
    by (simp add: keyless_config_def)
  have n: "\<not> length (urls (example_batch_params 2)) > 200"
    by (simp add: example_batch_params_def)
  show ?thesis
    using k n
      missing_credential [OF k, where sent = "[]" and pp = example_parse_params
        and bp = "example_batch_params 2"
        and ?axios1.0 = "\<lambda>r. Fulfilled \<lparr>code = CodeNumber 0, msg = None, data = \<lparr>task_id = ''t''\<rparr>\<rparr>"
        and ?axios3.0 = "\<lambda>r. Fulfilled \<lparr>code = CodeNumber 0, msg = None, data = \<lparr>batch_id = ''b''\<rparr>\<rparr>"]
    by (simp, blast)
qed

section \<open>The message of a remote error\<close>

lemma error_message_own:
  "c \<notin> set object_prototype_keys \<Longrightarrow> error_message c = map_of ERROR_MESSAGES c"
  by (simp add: error_message_def js_get_def split: option.split)

lemma table_entries_truthy: "map_of ERROR_MESSAGES c = Some e \<Longrightarrow> e \<noteq> []"
  by (auto simp: ERROR_MESSAGES_def split: if_splits)

lemma message_of_response:
  assumes "c \<notin> set object_prototype_keys"
  shows "interpolate (js_or (js_or (error_message c) m) (Some ''Unknown error'')) =
           spec_message c m"
proof (cases "map_of ERROR_MESSAGES c")
  case None
  then show ?thesis
    using assms by (cases m) (simp_all add: error_message_own spec_message_def js_or_def)
next
  case (Some e)
  then show ?thesis
    using assms table_entries_truthy [OF Some]
    by (simp add: error_message_own spec_message_def js_or_def)
qed

lemma message_of_axios_error:
  assumes "c \<notin> set object_prototype_keys"
    and "map_of ERROR_MESSAGES c \<noteq> None \<or> truthy m"
  shows "interpolate (js_or (error_message c) m) = spec_message c m"
proof (cases "map_of ERROR_MESSAGES c")
  case None
  then show ?thesis
    using assms by (cases m) (simp_all add: error_message_own spec_message_def js_or_def)
next
  case (Some e)
  then show ?thesis
    using assms table_entries_truthy [OF Some]
    by (simp add: error_message_own spec_message_def js_or_def)
qed

lemma show_nat_60006: "show_nat 60006 = ''60006''"
  by (simp add: show_nat.simps)

lemma show_int_minus_60006: "show_int (- 60006) = ''-60006''"
  by (simp add: show_int_safe decimal_def show_nat_60006)

lemma show_int_minus_1: "show_int (- 1) = ''-1''"
  by (simp add: show_int_safe decimal_def show_nat.simps)

lemma error_message_60006:
  "error_message ''-60006'' = Some ''Too many pages. Max 600 per file. Split the document.''"
  by code_simp

lemma error_message_minus_1: "error_message ''-1'' = None"
  by code_simp

text \<open>
  C6, as stated, fails. The message of the error is not the resolved message alone
  but \<open>MinerU error <code>: <message>\<close>; and for an envelope that arrives with a
  status outside 2xx, the handler of the \<open>AxiosError\<close> has no \<open>Unknown error\<close>
  fallback: an unknown code without a message gives the text \<open>undefined\<close>.
\<close>

theorem remote_error_message_counterexample:
  "fst (mineruRequest example_config
         (\<lambda>r. Fulfilled \<lparr>code = CodeNumber (- 60006), msg = Some ''page limit'', data = ()\<rparr>)
         ''/extract/task'' POST None [])
     = Inl (Error ''MinerU error -60006: Too many pages. Max 600 per file. Split the document.'')
   \<and> fst (mineruRequest example_config
         (\<lambda>r. Fulfilled \<lparr>code = CodeNumber (- 60006), msg = Some ''page limit'', data = ()\<rparr>)
         ''/extract/task'' POST None [])
     \<noteq> Inl (Error ''Too many pages. Max 600 per file. Split the document.'')
   \<and> fst (mineruRequest example_config
         (\<lambda>r. Axios_Error \<lparr>response_code = CodeNumber (- 1), response_msg = None,
                            response_status = Some 500,
                            message = ''Request failed with status code 500''\<rparr>
              :: unit http_outcome)
         ''/extract/task'' POST None [])
     = Inl (Error ''MinerU error -1: undefined'')"
  by (simp add: mineruRequest_def example_config_def apiKey_def Let_def
        show_int_minus_60006 show_int_minus_1 error_message_60006 error_message_minus_1
        js_or_def)

text \<open>
  C6, amended. With a credential configured, for every response envelope with a
  code other than the number 0 that arrives with a 2xx status, and whose code is not
  the name of a member inherited from \<open>Object.prototype\<close>, the remote call fails
  with an error whose message is \<open>MinerU error <code>: <m>\<close>, where \<open><m>\<close> is the
  entry of the fixed table when the code is known, else the message of the service
  when it is present and not empty, else \<open>Unknown error\<close>; for the code
  \<open>-60006\<close> the message is
  \<open>MinerU error -60006: Too many pages. Max 600 per file. Split the document.\<close>
  For an envelope that arrives with another status and a truthy code that is no
  inherited name, the same holds when the code is known or the service gives a
  message that is not empty.
\<close>

theorem remote_error_message:
  assumes "mineruApiKey config \<noteq> []"
  shows "(axios (axios_request config endpoint meth payload) = Fulfilled result \<and>
          code result \<noteq> CodeNumber 0 \<and>
          code_text (code result) \<notin> set object_prototype_keys \<longrightarrow>
          fst (mineruRequest config axios endpoint meth payload sent) =
            Inl (Error (''MinerU error '' @ code_text (code result) @ '': '' @
                        spec_message (code_text (code result)) (msg result))))
       \<and> (axios (axios_request config endpoint meth payload) = Fulfilled result \<and>
          code result \<noteq> CodeNumber 0 \<and> code_text (code result) = ''-60006'' \<longrightarrow>
          fst (mineruRequest config axios endpoint meth payload sent) =
            Inl (Error
              ''MinerU error -60006: Too many pages. Max 600 per file. Split the document.''))
       \<and> (axios (axios_request config endpoint meth payload) = Axios_Error err \<and>
          code_truthy (response_code err) \<and>
          code_text (response_code err) \<notin> set object_prototype_keys \<and>
          (map_of ERROR_MESSAGES (code_text (response_code err)) \<noteq> None \<or>
           truthy (response_msg err)) \<longrightarrow>
          fst (mineruRequest config axios endpoint meth payload sent) =
            Inl (Error (''MinerU error '' @ code_text (response_code err) @ '': '' @
                        spec_message (code_text (response_code err)) (response_msg err))))"
proof (intro conjI impI)
  assume "axios (axios_request config endpoint meth payload) = Fulfilled result \<and>
          code result \<noteq> CodeNumber 0 \<and>
          code_text (code result) \<notin> set object_prototype_keys"
  then show "fst (mineruRequest config axios endpoint meth payload sent) =
            Inl (Error (''MinerU error '' @ code_text (code result) @ '': '' @
                        spec_message (code_text (code result)) (msg result)))"
    using assms message_of_response [of "code_text (code result)" "msg result"]
    by (simp add: mineruRequest_def apiKey_def Let_def)
next
  assume a: "axios (axios_request config endpoint meth payload) = Fulfilled result \<and>
          code result \<noteq> CodeNumber 0 \<and> code_text (code result) = ''-60006''"
  have "''-60006'' \<notin> set object_prototype_keys"
    by (simp add: object_prototype_keys_def)
  moreover have "spec_message ''-60006'' (msg result) =
                   ''Too many pages. Max 600 per file. Split the document.''"
    by (simp add: spec_message_def ERROR_MESSAGES_def)
  ultimately show "fst (mineruRequest config axios endpoint meth payload sent) =
            Inl (Error
              ''MinerU error -60006: Too many pages. Max 600 per file. Split the document.'')"
    using assms a message_of_response [of "''-60006''" "msg result"]
    by (simp add: mineruRequest_def apiKey_def Let_def)
next
  assume "axios (axios_request config endpoint meth payload) = Axios_Error err \<and>
          code_truthy (response_code err) \<and>
          code_text (response_code err) \<notin> set object_prototype_keys \<and>
          (map_of ERROR_MESSAGES (code_text (response_code err)) \<noteq> None \<or>
           truthy (response_msg err))"
  then show "fst (mineruRequest config axios endpoint meth payload sent) =
            Inl (Error (''MinerU error '' @ code_text (response_code err) @ '': '' @
                        spec_message (code_text (response_code err)) (response_msg err)))"
    using assms message_of_axios_error [of "code_text (response_code err)" "response_msg err"]
    by (simp add: mineruRequest_def apiKey_def Let_def)
qed

text \<open>
  A code the table does not know, with the message of the service and without one,
  in a 2xx response; and a known code in a response with status 401.
\<close>

theorem remote_error_message_witness:
  "mineruApiKey example_config \<noteq> []
   \<and> fst (mineruRequest example_config
         (\<lambda>r. Fulfilled \<lparr>code = CodeString ''E1'', msg = Some ''quota exceeded'', data = ()\<rparr>)
         ''/extract/task'' POST None [])
     = Inl (Error ''MinerU error E1: quota exceeded'')
   \<and> fst (mineruRequest example_config
         (\<lambda>r. Fulfilled \<lparr>code = CodeString ''E1'', msg = None, data = ()\<rparr>)
         ''/extract/task'' POST None [])
     = Inl (Error ''MinerU error E1: Unknown error'')
   \<and> fst (mineruRequest example_config
         (\<lambda>r. Axios_Error \<lparr>response_code = CodeString ''A0202'', response_msg = None,
                            response_status = Some 401,
                            message = ''Request failed with status code 401''\<rparr>
              :: unit http_outcome)
         ''/extract/task'' POST None [])
     = Inl (Error ''MinerU error A0202: Token error. Check your API key.'')"
proof -
  have k: "mineruApiKey example_config \<noteq> []"
    by (simp add: example_config_def)
  have p: "''E1'' \<notin> set object_prototype_keys" "''A0202'' \<notin> set object_prototype_keys"
    by (simp_all add: object_prototype_keys_def)
  have m: "spec_message ''E1'' (Some ''quota exceeded'') = ''quota exceeded''"
    "spec_message ''E1'' None = ''Unknown error''"
    "spec_message ''A0202'' None = ''Token error. Check your API key.''"
    "map_of ERROR_MESSAGES ''A0202'' \<noteq> None"
    by (simp_all add: spec_message_def ERROR_MESSAGES_def)
  have a: "fst (mineruRequest example_config
         (\<lambda>r. Fulfilled \<lparr>code = CodeString ''E1'', msg = Some ''quota exceeded'', data = ()\<rparr>)
         ''/extract/task'' POST None [])
     = Inl (Error ''MinerU error E1: quota exceeded'')"
    using p m
      remote_error_message [OF k,
        where axios = "\<lambda>r. Fulfilled \<lparr>code = CodeString ''E1'', msg = Some ''quota exceeded'', data = ()\<rparr>"
        and result = "\<lparr>code = CodeString ''E1'', msg = Some ''quota exceeded'', data = ()\<rparr>"
        and endpoint = "''/extract/task''" and meth = POST and payload = None and sent = "[]"]
    by simp
  have b: "fst (mineruRequest example_config
         (\<lambda>r. Fulfilled \<lparr>code = CodeString ''E1'', msg = None, data = ()\<rparr>)
         ''/extract/task'' POST None [])
     = Inl (Error ''MinerU error E1: Unknown error'')"
    using p m
      remote_error_message [OF k,
        where axios = "\<lambda>r. Fulfilled \<lparr>code = CodeString ''E1'', msg = None, data = ()\<rparr>"
        and result = "\<lparr>code = CodeString ''E1'', msg = None, data = ()\<rparr>"
        and endpoint = "''/extract/task''" and meth = POST and payload = None and sent = "[]"]
    by simp
  have c: "fst (mineruRequest example_config
         (\<lambda>r. Axios_Error \<lparr>response_code = CodeString ''A0202'', response_msg = None,
                            response_status = Some 401,
                            message = ''Request failed with status code 401''\<rparr>
              :: unit http_outcome)
         ''/extract/task'' POST None [])
     = Inl (Error ''MinerU error A0202: Token error. Check your API key.'')"
    using p m
      remote_error_message [OF k,
        where axios = "\<lambda>r. Axios_Error \<lparr>response_code = CodeString ''A0202'', response_msg = None,
                            response_status = Some 401,
                            message = ''Request failed with status code 401''\<rparr> :: unit http_outcome"
        and err = "\<lparr>response_code = CodeString ''A0202'', response_msg = None,
                            response_status = Some 401,
                            message = ''Request failed with status code 401''\<rparr>"
        and endpoint = "''/extract/task''" and meth = POST and payload = None and sent = "[]"]
    by simp
  show ?thesis
    using k a b c by simp
qed

section \<open>The gateway\<close>

text \<open>
  C1, as stated, fails where a session id is supplied but unknown to the registry:
  the branch that creates a session is guarded by \<open>!sessionId\<close>, so an initialize
  message with the unknown id \<open>abc\<close> is answered with status 400 and nothing is
  created or registered.
\<close>

theorem initialize_with_unknown_id:
  "mcp example_sdk example_isInitializeRequest
     \<lparr>verb = Post, mcp_session_id = Some ''abc'', body = ''initialize''\<rparr> initial
   = (Status 400 ''Bad Request: No valid session ID provided'', initial)"
  by (simp add: mcp_def app_post_def initial_def js_get_def object_prototype_keys_def
        example_isInitializeRequest_def)

text \<open>
  C1, amended. For every inbound POST message that carries no session id (the header
  is absent or empty) and whose kind is initialize, the gateway creates a new
  transport, connects a new server to it and hands the message to it for the
  handshake; when the SDK, handling that message, reports the session initialised
  under the id \<open>s\<close>, the transport is registered under \<open>s\<close>, and a lookup of
  \<open>s\<close> finds it (the session is active).
\<close>

theorem initialize_creates_session:
  assumes "verb req = Post"
    and "\<not> truthy (mcp_session_id req)"
    and "isInitializeRequest (body req)"
    and "sdk \<lparr>sessionId = None\<rparr> req = [SessionInitialized s]"
  shows "mcp sdk isInitializeRequest req g =
           (Delegated (length (objects g)),
            g\<lparr>transports := (transports g)(s \<mapsto> length (objects g)),
              objects := objects g @ [\<lparr>sessionId = Some s\<rparr>],
              servers := servers g @ [length (objects g)],
              handled := handled g @ [(length (objects g), req)]\<rparr>)
         \<and> js_get (transports (snd (mcp sdk isInitializeRequest req g))) s =
             Own (length (objects g))"
proof -
  have found: "(case mcp_session_id req of
                  Some s \<Rightarrow> if s \<noteq> [] then js_get (transports g) s else Missing
                | None \<Rightarrow> Missing) = Missing"
    using assms(2) by (cases "mcp_session_id req") simp_all
  have run: "mcp sdk isInitializeRequest req g =
           (Delegated (length (objects g)),
            g\<lparr>transports := (transports g)(s \<mapsto> length (objects g)),
              objects := objects g @ [\<lparr>sessionId = Some s\<rparr>],
              servers := servers g @ [length (objects g)],
              handled := handled g @ [(length (objects g), req)]\<rparr>)"
    using assms
    by (simp add: mcp_def app_post_def found Let_def handleRequest_def onsessioninitialized_def)
  show ?thesis
    unfolding run by (simp add: js_get_def)
qed

theorem initialize_creates_session_witness:
  "verb \<lparr>verb = Post, mcp_session_id = None, body = ''initialize''\<rparr> = Post
   \<and> \<not> truthy (mcp_session_id \<lparr>verb = Post, mcp_session_id = None, body = ''initialize''\<rparr>)
   \<and> example_isInitializeRequest ''initialize''
   \<and> fst (mcp example_sdk example_isInitializeRequest
        \<lparr>verb = Post, mcp_session_id = None, body = ''initialize''\<rparr> initial) = Delegated 0
   \<and> js_get (transports (snd (mcp example_sdk example_isInitializeRequest
        \<lparr>verb = Post, mcp_session_id = None, body = ''initialize''\<rparr> initial))) ''s1'' = Own 0"
proof -
  let ?req = "\<lparr>verb = Post, mcp_session_id = None, body = ''initialize''\<rparr>"
  have a: "verb ?req = Post" "\<not> truthy (mcp_session_id ?req)"
    "example_isInitializeRequest (body ?req)"
    "example_sdk \<lparr>sessionId = None\<rparr> ?req = [SessionInitialized ''s1'']"
    by (simp_all add: example_isInitializeRequest_def example_sdk_def)
  have o: "length (objects (initial :: string gateway)) = 0"
    by (simp add: initial_def)
  show ?thesis
    using a o
      initialize_creates_session [where req = ?req and sdk = example_sdk
        and isInitializeRequest = example_isInitializeRequest and s = "''s1''"
        and g = "initial :: string gateway"]
    by (simp add: js_get_def)
qed

section \<open>The registry\<close>

text \<open>
  C2, as stated, fails: registering under an id that is registered replaces the
  entry, and nothing fails. Two initialize messages handled by an SDK that generates
  the same id \<open>s1\<close> twice: after the first the id maps to transport 0, the second
  is accepted like the first, and the id maps to transport 1.
\<close>

theorem registration_replaces:
  "transports (snd (mcp example_sdk example_isInitializeRequest
      \<lparr>verb = Post, mcp_session_id = None, body = ''initialize''\<rparr> initial)) ''s1'' = Some 0
   \<and> fst (mcp example_sdk example_isInitializeRequest
      \<lparr>verb = Post, mcp_session_id = None, body = ''initialize''\<rparr>
      (snd (mcp example_sdk example_isInitializeRequest
         \<lparr>verb = Post, mcp_session_id = None, body = ''initialize''\<rparr> initial))) = Delegated 1
   \<and> transports (snd (mcp example_sdk example_isInitializeRequest
      \<lparr>verb = Post, mcp_session_id = None, body = ''initialize''\<rparr>
      (snd (mcp example_sdk example_isInitializeRequest
         \<lparr>verb = Post, mcp_session_id = None, body = ''initialize''\<rparr> initial)))) ''s1'' = Some 1"
  by (simp add: mcp_def app_post_def initial_def Let_def handleRequest_def
        onsessioninitialized_def example_isInitializeRequest_def example_sdk_def)

text \<open>
  C2, amended. The registry maps each session id to at most one transport at any
  time: registering a transport under an id, registered or not, makes the id map to
  that transport, with no error, and leaves every other id as it was; and when a
  transport with a session id closes, the entry of that id is removed, so that a
  subsequent lookup of the id returns absent.
\<close>

theorem registry_entries:
  "transports (onsessioninitialized t s g) s = Some t
   \<and> (s' \<noteq> s \<longrightarrow> transports (onsessioninitialized t s g) s' = transports g s')
   \<and> (t < length (objects g) \<and> sessionId (objects g ! t) = Some s \<and> s \<noteq> [] \<longrightarrow>
        transports (onclose t g) s = None)
   \<and> (t < length (objects g) \<and> sessionId (objects g ! t) = Some s \<and> s \<noteq> [] \<and>
      s \<notin> set object_prototype_keys \<longrightarrow>
        js_get (transports (onclose t g)) s = Missing)"
  by (simp add: onsessioninitialized_def onclose_def js_get_def)

theorem registry_entries_witness:
  "transports (onsessioninitialized 1 ''s1''
      (initial\<lparr>transports := [''s1'' \<mapsto> 0, ''s2'' \<mapsto> 2]\<rparr> :: unit gateway)) ''s1'' = Some 1
   \<and> transports (onsessioninitialized 1 ''s1''
      (initial\<lparr>transports := [''s1'' \<mapsto> 0, ''s2'' \<mapsto> 2]\<rparr> :: unit gateway)) ''s2'' = Some 2
   \<and> js_get (transports (onclose 0
      (initial\<lparr>transports := [''s1'' \<mapsto> 0], objects := [\<lparr>sessionId = Some ''s1''\<rparr>]\<rparr>
         :: unit gateway))) ''s1'' = Missing"
proof -
  let ?g = "initial\<lparr>transports := [''s1'' \<mapsto> 0, ''s2'' \<mapsto> 2]\<rparr> :: unit gateway"
  let ?h = "initial\<lparr>transports := [''s1'' \<mapsto> 0], objects := [\<lparr>sessionId = Some ''s1''\<rparr>]\<rparr>
              :: unit gateway"
  have p: "''s1'' \<notin> set object_prototype_keys"
    by (simp add: object_prototype_keys_def)
  have h: "0 < length (objects ?h)" "sessionId (objects ?h ! 0) = Some ''s1''"
    by (simp_all add: initial_def)
  have g: "transports ?g ''s2'' = Some 2"
    by (simp add: initial_def)
  show ?thesis
    using p h g registry_entries [of 1 "''s1''" ?g "''s2''"]
      registry_entries [of 0 "''s1''" ?h "''s2''"]
    by simp
qed

section \<open>Unknown session ids\<close>

text \<open>
  A message with a session id that is neither registered nor the name of an
  inherited member of \<open>transports\<close> is answered with status 400 on each of the
  three routes; the state is unchanged, so no transport handles it.
\<close>

lemma unknown_session_rejected:
  assumes "mcp_session_id req = Some s" and "s \<noteq> []" and "js_get (transports g) s = Missing"
  shows "\<exists>m. mcp sdk isInitializeRequest req g = (Status 400 m, g)"
  using assms by (cases "verb req") (simp_all add: mcp_def app_post_def app_get_def app_delete_def)

text \<open>
  C3 on the failing input: a POST that is no initialize message and carries the
  session id \<open>constructor\<close>, with no session registered. \<open>transports["constructor"]\<close>
  is the function inherited from \<open>Object.prototype\<close>, which is truthy, so the route
  takes it for the transport of the session and calls its \<open>handleRequest\<close>: the
  handler throws a \<open>TypeError\<close> and answers no status 400. It creates no session
  and reaches no tool handler. The GET and DELETE routes do the same.
\<close>

theorem inherited_name_as_session_id:
  "mcp example_sdk example_isInitializeRequest
     \<lparr>verb = Post, mcp_session_id = Some ''constructor'', body = ''tools/call''\<rparr> initial
   = (Rejected (TypeError ''transport.handleRequest is not a function''), initial)
   \<and> mcp example_sdk example_isInitializeRequest
     \<lparr>verb = Get, mcp_session_id = Some ''constructor'', body = []\<rparr> initial
   = (Rejected (TypeError ''transport.handleRequest is not a function''), initial)
   \<and> mcp example_sdk example_isInitializeRequest
     \<lparr>verb = Delete, mcp_session_id = Some ''constructor'', body = []\<rparr> initial
   = (Rejected (TypeError ''transport.handleRequest is not a function''), initial)"
  by (simp add: mcp_def app_post_def app_get_def app_delete_def initial_def js_get_def
        object_prototype_keys_def)

end
